theory Spec2Isabelle
  imports Main "HOL-Library.Word"
begin

unbundle bit_operations_syntax

section \<open>The package I/O hook: data model\<close>

text \<open>
  The development embeds \<^verbatim>\<open>TigerPackageIo\<close> of
  \<^verbatim>\<open>crates/rrise/c/utilities/tiger_io_hook.cpp\<close>. The hook is built for a 64-bit
  Windows target (\<^verbatim>\<open>ReadFile\<close>, \<^verbatim>\<open>OVERLAPPED\<close>, \<^verbatim>\<open>uint64_t(in_fileDesc.hFile)\<close>):
  \<^verbatim>\<open>int\<close> and \<^verbatim>\<open>DWORD\<close> are 32-bit words, \<^verbatim>\<open>size_t\<close>, \<^verbatim>\<open>uint64_t\<close> and a file
  handle are 64-bit words. The audio SDK's types are declared in headers outside the
  repository; the records below carry the fields the hook reads or writes, at the widths the
  hook's own code uses them with.
\<close>

type_synonym byte = "8 word"

datatype AKRESULT = AK_Success | AK_Fail | AK_FileNotFound

text \<open>
  A call either returns to its caller or leaves through an uncaught C++ exception
  (\<^verbatim>\<open>std::vector\<close>'s constructor when the buffer cannot be allocated), which ends the
  process.
\<close>

datatype 'a outcome = Returns 'a | Throws

record AkFileDesc =
  iFileSize :: "64 word"
  uSector :: "32 word"
  uCustomParamSize :: "32 word"
  pCustomParam :: "64 word"
  hFile :: "64 word"
  deviceID :: "32 word"

record AkIOTransferInfo =
  uFilePosition :: "64 word"
  uBufferSize :: "32 word"
  uRequestedSize :: "32 word"

record AkDeviceSettings =
  uSchedulerTypeFlags :: "32 word"

record TigerPackageIo =
  m_deviceID :: "32 word"
  m_packageFiles :: "64 word \<rightharpoonup> byte list"
  m_nextPackageFileID :: "64 word"

definition SIZE_MAX :: "64 word" where
  "SIZE_MAX = - 1"

definition NULL :: "64 word" where
  "NULL = 0"

definition AK_SCHEDULER_BLOCKING :: "32 word" where
  "AK_SCHEDULER_BLOCKING = 0x01"

definition AK_INVALID_DEVICE_ID :: "32 word" where
  "AK_INVALID_DEVICE_ID = - 1"

subsection \<open>The handle space\<close>

text \<open>
  \<^verbatim>\<open>#define FILE_HANDLE_PACKAGE_BIT (1 << 31)\<close> is an expression of type \<^verbatim>\<open>int\<close>.
  Wherever the hook combines it with a \<^verbatim>\<open>uint64_t\<close>, the usual arithmetic conversions
  turn the \<^verbatim>\<open>int\<close> into a \<^verbatim>\<open>uint64_t\<close> by sign extension; \<^verbatim>\<open>~FILE_HANDLE_PACKAGE_BIT\<close>
  is complemented as an \<^verbatim>\<open>int\<close> first and converted afterwards.
\<close>

definition FILE_HANDLE_PACKAGE_BIT :: "32 word" where
  "FILE_HANDLE_PACKAGE_BIT = push_bit 31 1"

definition int_to_uint64 :: "32 word \<Rightarrow> 64 word" where
  "int_to_uint64 x = scast x"

text \<open>
  The three expressions the hook writes inline:
  \<^verbatim>\<open>fileId | FILE_HANDLE_PACKAGE_BIT\<close> (Open),
  \<^verbatim>\<open>uFile & FILE_HANDLE_PACKAGE_BIT\<close> and \<^verbatim>\<open>uFile & ~FILE_HANDLE_PACKAGE_BIT\<close> (Read, Close).
\<close>

definition encode_handle :: "64 word \<Rightarrow> 64 word" where
  "encode_handle fileId = fileId OR int_to_uint64 FILE_HANDLE_PACKAGE_BIT"

definition is_package_handle :: "64 word \<Rightarrow> bool" where
  "is_package_handle uFile \<longleftrightarrow> uFile AND int_to_uint64 FILE_HANDLE_PACKAGE_BIT \<noteq> 0"

definition package_key :: "64 word \<Rightarrow> 64 word" where
  "package_key uFile = uFile AND int_to_uint64 (NOT FILE_HANDLE_PACKAGE_BIT)"

definition decode_handle :: "64 word \<Rightarrow> bool \<times> 64 word" where
  "decode_handle uFile =
     (if is_package_handle uFile then (True, package_key uFile) else (False, uFile))"

subsection \<open>What the hook calls\<close>

text \<open>
  The asset-delivery source (\<^verbatim>\<open>ddumbe_get_wwise_file_size_by_id\<close>,
  \<^verbatim>\<open>ddumbe_read_wwise_file_by_id\<close>), the allocator and the operating system's file
  calls are declared, not defined, in the repository. The hook is embedded over a record of
  them, each a function from the arguments the hook passes to what the call hands back:
  \<^item> \<open>ddumbe_read_wwise_file_by_id id buffer size\<close> gives the result code and the bytes the
    source stored at the start of the buffer;
  \<^item> \<open>alloc_ok n\<close> tells whether the allocations Open makes for a buffer of \<open>n\<close> bytes
    succeed (otherwise \<^verbatim>\<open>std::vector\<close> throws);
  \<^item> \<open>ReadFile hFile nNumberOfBytesToRead Offset OffsetHigh\<close> gives the \<^verbatim>\<open>BOOL\<close>, the
    bytes stored in the caller's buffer and \<^verbatim>\<open>*lpNumberOfBytesRead\<close>;
  \<^item> \<open>WriteFile hFile data nNumberOfBytesToWrite Offset OffsetHigh\<close> gives the
    \<^verbatim>\<open>BOOL\<close> and \<^verbatim>\<open>*lpNumberOfBytesWritten\<close>;
  \<^item> \<open>CloseFile hFile\<close> is \<^verbatim>\<open>CAkFileHelpers::CloseFile\<close>.
  The operating system's own state is outside the model.
\<close>

record Host =
  ddumbe_get_wwise_file_size_by_id :: "32 word \<Rightarrow> 64 word"
  ddumbe_read_wwise_file_by_id :: "32 word \<Rightarrow> byte list \<Rightarrow> 64 word \<Rightarrow> AKRESULT \<times> byte list"
  alloc_ok :: "64 word \<Rightarrow> bool"
  ReadFile :: "64 word \<Rightarrow> 32 word \<Rightarrow> 32 word \<Rightarrow> 32 word \<Rightarrow> bool \<times> byte list \<times> 32 word"
  WriteFile :: "64 word \<Rightarrow> byte list \<Rightarrow> 32 word \<Rightarrow> 32 word \<Rightarrow> 32 word \<Rightarrow> bool \<times> 32 word"
  CloseFile :: "64 word \<Rightarrow> AKRESULT"

text \<open>
  The streaming manager (\<^verbatim>\<open>AK::StreamMgr\<close>) with its state \<open>'m\<close>. Pointers to a
  resolver or hook object are 64-bit words, \<open>NULL\<close> being 0.
\<close>

record 'm StreamMgr =
  GetFileLocationResolver :: "'m \<Rightarrow> 64 word"
  SetFileLocationResolver :: "64 word \<Rightarrow> 'm \<Rightarrow> 'm"
  CreateDevice :: "AkDeviceSettings \<Rightarrow> 64 word \<Rightarrow> 'm \<Rightarrow> 32 word \<times> 'm"

subsection \<open>Memory transfers\<close>

text \<open>
  What a call did to the caller's buffer: nothing, a transfer of the given bytes, or a
  \<^verbatim>\<open>memcpy\<close> whose source range is not inside the buffer it reads from (undefined
  behaviour in C++).
\<close>

datatype transfer = NoTransfer | Transferred "byte list" | OutOfBounds

definition memcpy_from :: "byte list \<Rightarrow> nat \<Rightarrow> nat \<Rightarrow> transfer" where
  "memcpy_from buffer pos n =
     (if pos + n \<le> length buffer then Transferred (take n (drop pos buffer)) else OutOfBounds)"

text \<open>
  The buffer after the delivery source has stored \<open>written\<close> at its start: its length is
  that of the vector, whatever the source stored.
\<close>

definition fill_buffer :: "byte list \<Rightarrow> byte list \<Rightarrow> byte list" where
  "fill_buffer buffer written = take (length buffer) written @ drop (length written) buffer"

section \<open>The hook's operations\<close>

text \<open>
  Every operation takes the hook object \<open>this\<close> and returns it as the call leaves it.
  \<^verbatim>\<open>printf\<close> and \<^verbatim>\<open>AKASSERT\<close> are diagnostics: the SDK's assertion macro expands to
  nothing in a release build and to a call of the assertion hook otherwise, and in both
  cases the statements after it run; they are left out. So are the parameters an
  operation never reads (\<^verbatim>\<open>in_eOpenMode\<close>, \<^verbatim>\<open>in_pFlags\<close>, \<^verbatim>\<open>io_bSyncOpen\<close>,
  \<^verbatim>\<open>in_heuristics\<close>).
\<close>

definition Init ::
  "'m StreamMgr \<Rightarrow> 64 word \<Rightarrow> TigerPackageIo \<Rightarrow> AkDeviceSettings \<Rightarrow> 'm
     \<Rightarrow> AKRESULT \<times> TigerPackageIo \<times> 'm" where
  "Init mgr this_ptr this in_deviceSettings m =
     (if uSchedulerTypeFlags in_deviceSettings \<noteq> AK_SCHEDULER_BLOCKING
      then (AK_Fail, this, m)
      else
        let m1 = (if GetFileLocationResolver mgr m = NULL
                  then SetFileLocationResolver mgr this_ptr m else m);
            (dev, m2) = CreateDevice mgr in_deviceSettings this_ptr m1;
            this1 = this\<lparr>m_deviceID := dev\<rparr>
        in if m_deviceID this1 \<noteq> AK_INVALID_DEVICE_ID
           then (AK_Success, this1, m2)
           else (AK_Success, this1, m2))"

definition Open_id ::
  "Host \<Rightarrow> TigerPackageIo \<Rightarrow> 32 word \<Rightarrow> AkFileDesc
     \<Rightarrow> (AKRESULT \<times> TigerPackageIo \<times> AkFileDesc) outcome" where
  "Open_id host this in_fileID out_fileDesc =
     (let size = ddumbe_get_wwise_file_size_by_id host in_fileID in
      if size = SIZE_MAX then Returns (AK_FileNotFound, this, out_fileDesc)
      else if \<not> alloc_ok host size then Throws
      else
        let buffer0 = replicate (unat size) (0 :: byte);
            (res, written) = ddumbe_read_wwise_file_by_id host in_fileID buffer0 size;
            buffer = fill_buffer buffer0 written
        in
        if res \<noteq> AK_Success then Returns (AK_Fail, this, out_fileDesc)
        else
          let fileId = m_nextPackageFileID this;
              this1 = this\<lparr>m_nextPackageFileID := m_nextPackageFileID this + 1\<rparr>;
              this2 = this1\<lparr>m_packageFiles := (m_packageFiles this1)(fileId \<mapsto> buffer)\<rparr>
          in Returns (AK_Success, this2,
               out_fileDesc\<lparr>iFileSize := size, uSector := 0, deviceID := m_deviceID this2,
                 hFile := encode_handle fileId, pCustomParam := NULL,
                 uCustomParamSize := 0\<rparr>))"

text \<open>
  In Read, \<^verbatim>\<open>uFilePosition + uRequestedSize\<close> is an addition of \<^verbatim>\<open>uint64_t\<close> (the
  32-bit size is converted first), compared with \<^verbatim>\<open>buffer.size()\<close>, which is the length
  of the vector.
\<close>

definition Read ::
  "Host \<Rightarrow> TigerPackageIo \<Rightarrow> AkFileDesc \<Rightarrow> AkIOTransferInfo
     \<Rightarrow> AKRESULT \<times> TigerPackageIo \<times> transfer" where
  "Read host this in_fileDesc io_transferInfo =
     (let uFile = hFile in_fileDesc in
      if is_package_handle uFile then
        (let fileId = package_key uFile in
         case m_packageFiles this fileId of
           None \<Rightarrow> (AK_Fail, this, NoTransfer)
         | Some buffer \<Rightarrow>
             if length buffer
                < unat (uFilePosition io_transferInfo + ucast (uRequestedSize io_transferInfo))
             then (AK_Fail, this, NoTransfer)
             else (AK_Success, this,
                    memcpy_from buffer (unat (uFilePosition io_transferInfo))
                      (unat (uRequestedSize io_transferInfo))))
      else
        (let Offset = ucast (uFilePosition io_transferInfo AND 0xFFFFFFFF);
             OffsetHigh = ucast (drop_bit 32 (uFilePosition io_transferInfo) AND 0xFFFFFFFF);
             (ok, data, uSizeTransferred) =
               ReadFile host uFile (uRequestedSize io_transferInfo) Offset OffsetHigh
         in if ok then (AK_Success, this, Transferred data)
            else (AK_Fail, this, Transferred data)))"

definition Write ::
  "Host \<Rightarrow> TigerPackageIo \<Rightarrow> AkFileDesc \<Rightarrow> byte list \<Rightarrow> AkIOTransferInfo
     \<Rightarrow> AKRESULT \<times> TigerPackageIo" where
  "Write host this in_fileDesc in_pData io_transferInfo =
     (let Offset = ucast (uFilePosition io_transferInfo AND 0xFFFFFFFF);
          OffsetHigh = ucast (drop_bit 32 (uFilePosition io_transferInfo) AND 0xFFFFFFFF);
          (ok, uSizeTransferred) =
            WriteFile host (hFile in_fileDesc) in_pData (uRequestedSize io_transferInfo)
              Offset OffsetHigh
      in if ok then (AK_Success, this) else (AK_Fail, this))"

definition Close :: "Host \<Rightarrow> TigerPackageIo \<Rightarrow> AkFileDesc \<Rightarrow> AKRESULT \<times> TigerPackageIo" where
  "Close host this in_fileDesc =
     (let uFile = hFile in_fileDesc in
      if is_package_handle uFile then
        (let fileId = package_key uFile in
         (AK_Success, this\<lparr>m_packageFiles := (m_packageFiles this)(fileId := None)\<rparr>))
      else (CloseFile host (hFile in_fileDesc), this))"

definition GetBlockSize :: "AkFileDesc \<Rightarrow> 32 word" where
  "GetBlockSize in_fileDesc = 1"

subsection \<open>A concrete host\<close>

text \<open>
  The scenario of the specification: the delivery source knows the asset \<open>0x10\<close>, of four
  bytes \<open>01 02 03 04\<close>, and no other. Its operating system answers every read and write
  with success and one byte transferred, and its streaming manager (whose state is the
  registered resolver) refuses to create a device.
\<close>

definition scenario_host :: Host where
  "scenario_host =
     \<lparr>ddumbe_get_wwise_file_size_by_id = (\<lambda>id. if id = 0x10 then 4 else SIZE_MAX),
      ddumbe_read_wwise_file_by_id =
        (\<lambda>id buffer size. if id = 0x10 then (AK_Success, [1, 2, 3, 4]) else (AK_Fail, [])),
      alloc_ok = (\<lambda>n. True),
      ReadFile = (\<lambda>h n lo hi. (True, [0x2A], 1)),
      WriteFile = (\<lambda>h data n lo hi. (True, 1)),
      CloseFile = (\<lambda>h. AK_Success)\<rparr>"

definition refusing_mgr :: "(64 word) StreamMgr" where
  "refusing_mgr =
     \<lparr>GetFileLocationResolver = (\<lambda>m. m),
      SetFileLocationResolver = (\<lambda>p m. p),
      CreateDevice = (\<lambda>settings p m. (AK_INVALID_DEVICE_ID, m))\<rparr>"

definition hook_at :: "64 word \<Rightarrow> TigerPackageIo" where
  "hook_at n =
     \<lparr>m_deviceID = AK_INVALID_DEVICE_ID, m_packageFiles = Map.empty, m_nextPackageFileID = n\<rparr>"

definition blank_desc :: AkFileDesc where
  "blank_desc =
     \<lparr>iFileSize = 0, uSector = 0, uCustomParamSize = 0, pCustomParam = NULL, hFile = 0,
      deviceID = 0\<rparr>"

definition request :: "64 word \<Rightarrow> 32 word \<Rightarrow> AkIOTransferInfo" where
  "request pos n = \<lparr>uFilePosition = pos, uBufferSize = n, uRequestedSize = n\<rparr>"

text \<open>
  \<open>hook_at n\<close> is a hook as its constructor leaves it, with the counter (which the
  constructor does not initialise) holding \<open>n\<close>. \<open>scenario_hook\<close> and \<open>scenario_desc\<close>
  are the hook and the descriptor after \<open>Open(0x10)\<close> on \<open>hook_at 0\<close>.
\<close>

definition scenario_hook :: TigerPackageIo where
  "scenario_hook =
     \<lparr>m_deviceID = AK_INVALID_DEVICE_ID, m_packageFiles = [0 \<mapsto> [1, 2, 3, 4]],
      m_nextPackageFileID = 1\<rparr>"

definition scenario_desc :: AkFileDesc where
  "scenario_desc =
     \<lparr>iFileSize = 4, uSector = 0, uCustomParamSize = 0, pCustomParam = NULL,
      hFile = 0xFFFFFFFF80000000, deviceID = AK_INVALID_DEVICE_ID\<rparr>"

section \<open>Properties of the handle space\<close>

lemma package_bit_uint64: "int_to_uint64 FILE_HANDLE_PACKAGE_BIT = NOT (mask 31)"
  by (simp add: int_to_uint64_def FILE_HANDLE_PACKAGE_BIT_def mask_eq_decr_exp)

lemma package_mask_uint64: "int_to_uint64 (NOT FILE_HANDLE_PACKAGE_BIT) = mask 31"
  by (simp add: int_to_uint64_def FILE_HANDLE_PACKAGE_BIT_def mask_eq_decr_exp)

lemma is_package_encode: "is_package_handle (encode_handle k)"
proof -
  have "bit (encode_handle k AND int_to_uint64 FILE_HANDLE_PACKAGE_BIT) 31"
    by (simp add: encode_handle_def package_bit_uint64 bit_simps)
  then have "encode_handle k AND int_to_uint64 FILE_HANDLE_PACKAGE_BIT \<noteq> 0"
    by auto
  then show ?thesis
    by (simp add: is_package_handle_def)
qed

lemma package_key_encode: "package_key (encode_handle k) = k AND mask 31"
  unfolding package_key_def encode_handle_def package_bit_uint64 package_mask_uint64
  by (rule bit_word_eqI) (auto simp: bit_simps)

lemma package_key_encode_small: "k < 2 ^ 31 \<Longrightarrow> package_key (encode_handle k) = k"
  by (simp add: package_key_encode less_mask_eq)

lemma package_key_less: "package_key h < 2 ^ 31"
  unfolding package_key_def package_mask_uint64
  using and_mask_less' [of 31 h] by simp

lemma package_bit_value: "int_to_uint64 FILE_HANDLE_PACKAGE_BIT = 0xFFFFFFFF80000000"
  by (simp add: int_to_uint64_def FILE_HANDLE_PACKAGE_BIT_def)

lemma package_mask_value: "int_to_uint64 (NOT FILE_HANDLE_PACKAGE_BIT) = 0x7FFFFFFF"
  by (simp add: int_to_uint64_def FILE_HANDLE_PACKAGE_BIT_def)

lemma encode_handle_value: "encode_handle k = k OR 0xFFFFFFFF80000000"
  by (simp only: encode_handle_def package_bit_value)

lemma is_package_handle_value: "is_package_handle h \<longleftrightarrow> h AND 0xFFFFFFFF80000000 \<noteq> 0"
  by (simp only: is_package_handle_def package_bit_value)

lemma package_key_value: "package_key h = h AND 0x7FFFFFFF"
  by (simp only: package_key_def package_mask_value)

text \<open>
  Claim C3. For every Package Key \<open>k\<close> in the representable key range, which the mask
  \<^verbatim>\<open>~FILE_HANDLE_PACKAGE_BIT\<close> makes the keys below \<open>2 ^ 31\<close>, encoding sets the flag bit
  (bit 31) and keeps the low bits of \<open>k\<close>, and decoding the encoded handle gives
  \<open>(True, k)\<close>.
\<close>

theorem handle_roundtrip:
  "k < 2 ^ 31 \<Longrightarrow>
     decode_handle (encode_handle k) = (True, k)
     \<and> bit (encode_handle k) 31
     \<and> encode_handle k AND mask 31 = k"
proof -
  assume k: "k < 2 ^ 31"
  have flag: "bit (encode_handle k) 31"
    by (simp add: encode_handle_def package_bit_uint64 bit_simps)
  have low: "encode_handle k AND mask 31 = k"
    using package_key_encode_small [OF k]
    by (simp add: package_key_def package_mask_uint64)
  have "decode_handle (encode_handle k) = (True, k)"
    by (simp add: decode_handle_def is_package_encode package_key_encode_small [OF k])
  with flag low show ?thesis
    by simp
qed

theorem handle_roundtrip_witness:
  "(5 :: 64 word) < 2 ^ 31
     \<and> decode_handle (encode_handle 5) = (True, 5)
     \<and> encode_handle 5 = 0xFFFFFFFF80000005"
proof -
  have h: "(5 :: 64 word) < 2 ^ 31"
    by simp
  have "encode_handle 5 = 0xFFFFFFFF80000005"
    by (simp add: encode_handle_value)
  with h handle_roundtrip [OF h] show ?thesis
    by simp
qed

section \<open>Opening by numeric ID\<close>

lemma fill_buffer_whole: "length written = length buffer \<Longrightarrow> fill_buffer buffer written = written"
  by (simp add: fill_buffer_def)

lemma length_fill_buffer: "length (fill_buffer buffer written) = length buffer"
  by (simp add: fill_buffer_def)

text \<open>What a successful open leaves behind: the hook and the descriptor, field by field.\<close>

lemma Open_id_success:
  assumes "Open_id host this in_fileID fd = Returns (AK_Success, this', fd')"
  shows "this' = this\<lparr>m_nextPackageFileID := m_nextPackageFileID this + 1,
            m_packageFiles := (m_packageFiles this)(m_nextPackageFileID this \<mapsto>
              fill_buffer (replicate (unat (ddumbe_get_wwise_file_size_by_id host in_fileID)) 0)
                (snd (ddumbe_read_wwise_file_by_id host in_fileID
                   (replicate (unat (ddumbe_get_wwise_file_size_by_id host in_fileID)) 0)
                   (ddumbe_get_wwise_file_size_by_id host in_fileID))))\<rparr>"
    and "fd' = fd\<lparr>iFileSize := ddumbe_get_wwise_file_size_by_id host in_fileID, uSector := 0,
            deviceID := m_deviceID this, hFile := encode_handle (m_nextPackageFileID this),
            pCustomParam := NULL, uCustomParamSize := 0\<rparr>"
  using assms
  by (auto simp: Open_id_def Let_def split: if_splits prod.splits)

lemma scenario_open:
  "Open_id scenario_host (hook_at 0) 0x10 blank_desc
     = Returns (AK_Success, scenario_hook, scenario_desc)"
  by (simp add: Open_id_def scenario_host_def hook_at_def blank_desc_def scenario_hook_def
      scenario_desc_def SIZE_MAX_def fill_buffer_def encode_handle_value Let_def)

lemma scenario_reopen:
  "Open_id scenario_host (hook_at 1) 0x10 blank_desc =
     Returns (AK_Success, (hook_at 2)\<lparr>m_packageFiles := [1 \<mapsto> [1, 2, 3, 4]]\<rparr>,
       scenario_desc\<lparr>hFile := 0xFFFFFFFF80000001\<rparr>)"
  by (simp add: Open_id_def scenario_host_def hook_at_def blank_desc_def
      scenario_desc_def SIZE_MAX_def fill_buffer_def encode_handle_value Let_def)

lemma scenario_desc_flagged: "is_package_handle (hFile scenario_desc)"
  by (simp add: scenario_desc_def is_package_handle_value)

lemma scenario_desc_key: "package_key (hFile scenario_desc) = 0"
  by (simp add: scenario_desc_def package_key_value)

text \<open>
  Claim C8, as amended. Every successful numeric-ID Open populates the returned descriptor
  with the Package-flagged handle \<^verbatim>\<open>fileId | FILE_HANDLE_PACKAGE_BIT\<close>, the size the
  delivery source reported (which is the length of the stored buffer; \<^verbatim>\<open>iFileSize\<close> is a
  signed field holding the same 64 bits), \<^verbatim>\<open>uSector\<close> 0, the hook's current device
  identity, and an empty custom parameter. The value 1 is what \<^verbatim>\<open>GetBlockSize\<close> answers
  for the descriptor, not a field of it.
\<close>

theorem Open_id_populates_descriptor:
  assumes opened: "Open_id host this in_fileID fd = Returns (AK_Success, this', fd')"
  shows "hFile fd' = encode_handle (m_nextPackageFileID this)
     \<and> is_package_handle (hFile fd')
     \<and> iFileSize fd' = ddumbe_get_wwise_file_size_by_id host in_fileID
     \<and> (\<exists>buffer. m_packageFiles this' (m_nextPackageFileID this) = Some buffer
           \<and> length buffer = unat (iFileSize fd'))
     \<and> uSector fd' = 0
     \<and> GetBlockSize fd' = 1
     \<and> deviceID fd' = m_deviceID this
     \<and> m_deviceID this' = m_deviceID this
     \<and> pCustomParam fd' = NULL
     \<and> uCustomParamSize fd' = 0"
proof -
  note s = Open_id_success(1) [OF opened] and d = Open_id_success(2) [OF opened]
  have handle: "hFile fd' = encode_handle (m_nextPackageFileID this)"
    using d by simp
  then have flagged: "is_package_handle (hFile fd')"
    by (simp add: is_package_encode)
  have size: "iFileSize fd' = ddumbe_get_wwise_file_size_by_id host in_fileID"
    using d by simp
  have stored: "\<exists>buffer. m_packageFiles this' (m_nextPackageFileID this) = Some buffer
           \<and> length buffer = unat (iFileSize fd')"
    using s size by (simp add: length_fill_buffer)
  have rest: "uSector fd' = 0" "deviceID fd' = m_deviceID this" "pCustomParam fd' = NULL"
      "uCustomParamSize fd' = 0"
    using d by simp_all
  have dev: "m_deviceID this' = m_deviceID this"
    using s by simp
  from handle flagged size stored rest dev show ?thesis
    by (simp add: GetBlockSize_def)
qed

theorem Open_id_populates_descriptor_witness:
  "Open_id scenario_host (hook_at 0) 0x10 blank_desc
     = Returns (AK_Success, scenario_hook, scenario_desc)
   \<and> hFile scenario_desc = encode_handle (m_nextPackageFileID (hook_at 0))
   \<and> iFileSize scenario_desc = 4
   \<and> uSector scenario_desc = 0
   \<and> GetBlockSize scenario_desc = 1
   \<and> deviceID scenario_desc = m_deviceID (hook_at 0)"
  using scenario_open Open_id_populates_descriptor [OF scenario_open]
  by (simp add: scenario_host_def)

text \<open>
  The claim as the specification words it asks for sector size 1 in the descriptor. The
  open below starts from a descriptor whose \<^verbatim>\<open>uSector\<close> is 1 and returns it with 0.
\<close>

theorem Open_id_sector_counterexample:
  "Open_id scenario_host (hook_at 0) 0x10 (blank_desc\<lparr>uSector := 1\<rparr>)
     = Returns (AK_Success, scenario_hook, scenario_desc)
   \<and> uSector scenario_desc = 0
   \<and> uSector scenario_desc \<noteq> 1"
  by (simp add: Open_id_def scenario_host_def hook_at_def blank_desc_def scenario_hook_def
      scenario_desc_def SIZE_MAX_def fill_buffer_def encode_handle_value Let_def)

section \<open>Reading\<close>

lemma unat_size_to_uint64: "unat (ucast (n :: 32 word) :: 64 word) = unat n"
proof -
  have "unat n < 2 ^ 32"
    using unsigned_less [of n, where 'a = nat] by simp
  then have "unat n < 2 ^ 64"
    by simp
  then have "take_bit 64 (unat n) = unat n"
    by (simp only: take_bit_nat_eq_self)
  then show ?thesis
    by (simp add: unsigned_ucast_eq)
qed

lemma unat_position_plus_size:
  fixes pos :: "64 word" and n :: "32 word"
  assumes "unat pos + unat n < 2 ^ 64"
  shows "unat (pos + ucast n) = unat pos + unat n"
proof -
  from assms have "unat pos + unat (ucast n :: 64 word) < 2 ^ LENGTH(64)"
    by (simp add: unat_size_to_uint64)
  then have "unat (pos + ucast n) = unat pos + unat (ucast n :: 64 word)"
    by (rule unat_add_lem [THEN iffD1])
  then show ?thesis
    by (simp add: unat_size_to_uint64)
qed

text \<open>
  Where the 64-bit sum of position and size does not wrap, the check of Read is the
  range check: a request that ends past the buffer fails and transfers nothing, any other
  copies exactly the bytes of the range.
\<close>

lemma Read_package_checked:
  assumes "is_package_handle (hFile fd)"
    and "m_packageFiles this (package_key (hFile fd)) = Some buffer"
    and "unat (uFilePosition ti) + unat (uRequestedSize ti) < 2 ^ 64"
  shows "Read host this fd ti =
           (if length buffer < unat (uFilePosition ti) + unat (uRequestedSize ti)
            then (AK_Fail, this, NoTransfer)
            else (AK_Success, this,
                   Transferred (take (unat (uRequestedSize ti))
                     (drop (unat (uFilePosition ti)) buffer))))"
  using assms
  by (simp add: Read_def Let_def unat_position_plus_size memcpy_from_def)

lemma Read_stale:
  assumes "is_package_handle (hFile fd)"
    and "m_packageFiles this (package_key (hFile fd)) = None"
  shows "Read host this fd ti = (AK_Fail, this, NoTransfer)"
  using assms by (simp add: Read_def Let_def)

text \<open>The reads of the specification's scenario.\<close>

lemma scenario_read_inside:
  "Read scenario_host scenario_hook scenario_desc (request 1 2)
     = (AK_Success, scenario_hook, Transferred [2, 3])"
  by (simp add: Read_def scenario_hook_def scenario_desc_def request_def
      is_package_handle_value package_key_value memcpy_from_def Let_def)

lemma scenario_read_outside:
  "Read scenario_host scenario_hook scenario_desc (request 3 2)
     = (AK_Fail, scenario_hook, NoTransfer)"
  by (simp add: Read_def scenario_hook_def scenario_desc_def request_def
      is_package_handle_value package_key_value memcpy_from_def Let_def)

text \<open>
  Claim C1. A Read against a Package-flagged descriptor whose key is present must fail and
  copy nothing whenever position + size exceeds the length of the stored buffer. The hook
  adds position and size as \<^verbatim>\<open>uint64_t\<close>, so the sum can wrap: on the four-byte buffer
  of the scenario, the request at position \<open>2^64 - 1\<close> for 2 bytes ends past the buffer,
  the wrapped sum is 1, the check passes, Read returns \<^verbatim>\<open>AK_Success\<close> and the
  \<^verbatim>\<open>memcpy\<close> reads outside the buffer.
\<close>

theorem Read_position_wraps:
  "Open_id scenario_host (hook_at 0) 0x10 blank_desc
     = Returns (AK_Success, scenario_hook, scenario_desc)
   \<and> m_packageFiles scenario_hook (package_key (hFile scenario_desc)) = Some [1, 2, 3, 4]
   \<and> length [1, 2, 3, 4 :: byte] < unat (0xFFFFFFFFFFFFFFFF :: 64 word) + unat (2 :: 32 word)
   \<and> Read scenario_host scenario_hook scenario_desc (request 0xFFFFFFFFFFFFFFFF 2)
       = (AK_Success, scenario_hook, OutOfBounds)"
proof -
  have "m_packageFiles scenario_hook (package_key (hFile scenario_desc)) = Some [1, 2, 3, 4]"
    by (simp add: scenario_desc_key scenario_hook_def)
  moreover have "Read scenario_host scenario_hook scenario_desc (request 0xFFFFFFFFFFFFFFFF 2)
       = (AK_Success, scenario_hook, OutOfBounds)"
    by (simp add: Read_def scenario_hook_def scenario_desc_def request_def
        is_package_handle_value package_key_value memcpy_from_def Let_def)
  ultimately show ?thesis
    using scenario_open by simp
qed

text \<open>
  Claim C2, as amended. For every numeric-ID Open where the delivery source reports size
  \<open>S\<close>, the buffer is allocated, the fetch of \<open>S\<close> bytes succeeds and the key the
  counter holds is in the representable range (below \<open>2^31\<close>), Open succeeds, the
  descriptor's size is \<open>S\<close>, and a Read of that descriptor at position 0 for \<open>S\<close>
  bytes (\<open>S\<close> being a 32-bit request size) copies exactly the fetched bytes.
\<close>

theorem Open_then_Read_whole:
  assumes size: "ddumbe_get_wwise_file_size_by_id host in_fileID = S"
    and sentinel: "S \<noteq> SIZE_MAX"
    and alloc: "alloc_ok host S"
    and fetch: "ddumbe_read_wwise_file_by_id host in_fileID (replicate (unat S) 0) S
                  = (AK_Success, bytes)"
    and len: "length bytes = unat S"
    and key: "m_nextPackageFileID this < 2 ^ 31"
    and pos: "uFilePosition ti = 0"
    and req: "ucast (uRequestedSize ti) = S"
  shows "\<exists>this' fd'.
           Open_id host this in_fileID fd = Returns (AK_Success, this', fd')
           \<and> iFileSize fd' = S
           \<and> Read host this' fd' ti = (AK_Success, this', Transferred bytes)"
proof -
  define this' where "this' = this\<lparr>m_nextPackageFileID := m_nextPackageFileID this + 1,
      m_packageFiles := (m_packageFiles this)(m_nextPackageFileID this \<mapsto> bytes)\<rparr>"
  define fd' where "fd' = fd\<lparr>iFileSize := S, uSector := 0, deviceID := m_deviceID this,
      hFile := encode_handle (m_nextPackageFileID this), pCustomParam := NULL,
      uCustomParamSize := 0\<rparr>"
  have opened: "Open_id host this in_fileID fd = Returns (AK_Success, this', fd')"
    using size sentinel alloc fetch len
    by (simp add: Open_id_def Let_def fill_buffer_whole this'_def fd'_def)
  have flagged: "is_package_handle (hFile fd')"
    by (simp add: fd'_def is_package_encode)
  have stored: "m_packageFiles this' (package_key (hFile fd')) = Some bytes"
    by (simp add: fd'_def this'_def package_key_encode_small [OF key])
  have n: "unat (uRequestedSize ti) = unat S"
    using req unat_size_to_uint64 [of "uRequestedSize ti"] by simp
  have small: "unat (uFilePosition ti) + unat (uRequestedSize ti) < 2 ^ 64"
    using pos unsigned_less [of "uRequestedSize ti", where 'a = nat] by simp
  have "Read host this' fd' ti = (AK_Success, this', Transferred bytes)"
    using Read_package_checked [OF flagged stored small] pos n len by simp
  with opened show ?thesis
    by (auto simp: fd'_def)
qed

theorem Open_then_Read_whole_witness:
  "\<exists>this' fd'.
      Open_id scenario_host (hook_at 0) 0x10 blank_desc = Returns (AK_Success, this', fd')
      \<and> iFileSize fd' = 4
      \<and> Read scenario_host this' fd' (request 0 4)
          = (AK_Success, this', Transferred [1, 2, 3, 4])"
  using Open_then_Read_whole
    [of scenario_host "0x10" 4 "[1, 2, 3, 4]" "hook_at 0" "request 0 4" blank_desc]
  by (simp add: scenario_host_def SIZE_MAX_def hook_at_def request_def)

text \<open>
  Without the bound on the key the claim fails. When the counter holds \<open>2^31\<close>, Open
  stores the buffer under \<open>2^31\<close> and returns the handle \<^verbatim>\<open>0xFFFFFFFF80000000\<close>, which
  Read decodes to the key 0: the Read of the whole asset finds no entry and fails.
\<close>

theorem Open_then_Read_alias_counterexample:
  "Open_id scenario_host (hook_at 0x80000000) 0x10 blank_desc =
     Returns (AK_Success,
       (hook_at 0x80000001)\<lparr>m_packageFiles := [0x80000000 \<mapsto> [1, 2, 3, 4]]\<rparr>,
       scenario_desc)
   \<and> Read scenario_host
         ((hook_at 0x80000001)\<lparr>m_packageFiles := [0x80000000 \<mapsto> [1, 2, 3, 4]]\<rparr>)
         scenario_desc (request 0 4)
       = (AK_Fail,
          (hook_at 0x80000001)\<lparr>m_packageFiles := [0x80000000 \<mapsto> [1, 2, 3, 4]]\<rparr>,
          NoTransfer)"
proof -
  have "Open_id scenario_host (hook_at 0x80000000) 0x10 blank_desc =
     Returns (AK_Success,
       (hook_at 0x80000001)\<lparr>m_packageFiles := [0x80000000 \<mapsto> [1, 2, 3, 4]]\<rparr>,
       scenario_desc)"
    by (simp add: Open_id_def scenario_host_def hook_at_def blank_desc_def
        scenario_desc_def SIZE_MAX_def fill_buffer_def encode_handle_value Let_def)
  moreover have "Read scenario_host
         ((hook_at 0x80000001)\<lparr>m_packageFiles := [0x80000000 \<mapsto> [1, 2, 3, 4]]\<rparr>)
         scenario_desc (request 0 4)
       = (AK_Fail,
          (hook_at 0x80000001)\<lparr>m_packageFiles := [0x80000000 \<mapsto> [1, 2, 3, 4]]\<rparr>,
          NoTransfer)"
    by (rule Read_stale) (simp_all add: scenario_desc_flagged scenario_desc_key hook_at_def)
  ultimately show ?thesis
    by simp
qed

section \<open>Closing, and the key counter\<close>

lemma Close_counter:
  "m_nextPackageFileID (snd (Close host this fd)) = m_nextPackageFileID this"
  by (simp add: Close_def Let_def)

lemma Close_package:
  "is_package_handle (hFile fd) \<Longrightarrow>
     Close host this fd =
       (AK_Success,
        this\<lparr>m_packageFiles := (m_packageFiles this)(package_key (hFile fd) := None)\<rparr>)"
  by (simp add: Close_def Let_def)

lemma scenario_close:
  "Close scenario_host scenario_hook scenario_desc = (AK_Success, hook_at 1)"
  by (simp add: Close_package scenario_desc_flagged scenario_desc_key scenario_hook_def
      hook_at_def)

text \<open>
  An absent key stays absent through Close, and through Open unless it is the key the
  counter holds; Read and Write return the hook as they found it.
\<close>

lemma absent_after_Close:
  "m_packageFiles this k = None \<Longrightarrow> m_packageFiles (snd (Close host this fd)) k = None"
  by (simp add: Close_def Let_def)

lemma absent_after_Open_id:
  assumes "Open_id host this in_fileID fd = Returns (r, this', fd')"
    and "k \<noteq> m_nextPackageFileID this"
    and "m_packageFiles this k = None"
  shows "m_packageFiles this' k = None"
  using assms
  by (auto simp: Open_id_def Let_def split: if_splits prod.splits)

lemma Read_keeps_hook: "fst (snd (Read host this fd ti)) = this"
  by (simp add: Read_def Let_def split: option.splits prod.splits)

lemma Write_keeps_hook: "snd (Write host this fd in_pData ti) = this"
  by (simp add: Write_def Let_def split: prod.splits)

lemma counter_step:
  fixes c :: "64 word"
  assumes "c \<noteq> - 1"
  shows "c < c + 1"
proof -
  have top: "unat (- 1 :: 64 word) = 2 ^ 64 - 1"
    by (simp only: unsigned_minus_1_eq_mask mask_eq_exp_minus_1) simp
  have "unat c \<noteq> unat (- 1 :: 64 word)"
    using assms by (simp only: word_unat_eq_iff [symmetric] not_False_eq_True)
  moreover have "unat c < 2 ^ 64"
    using unsigned_less [of c, where 'a = nat] by simp
  ultimately have "unat c + unat (1 :: 64 word) < 2 ^ LENGTH(64)"
    using top by simp
  then have "unat (c + 1) = unat c + unat (1 :: 64 word)"
    by (rule unat_add_lem [THEN iffD1])
  then show ?thesis
    by (simp add: word_less_nat_alt)
qed

text \<open>
  In terms of the handle alone: Close on a flagged handle succeeds and erases whatever
  entry stands under the handle's low 31 bits, and a Read of that handle afterwards fails
  and copies nothing.
\<close>

lemma Close_flagged_then_Read:
  assumes "is_package_handle (hFile fd)"
  shows "Close host this fd =
           (AK_Success,
            this\<lparr>m_packageFiles := (m_packageFiles this)(package_key (hFile fd) := None)\<rparr>)
     \<and> m_packageFiles (snd (Close host this fd)) (package_key (hFile fd)) = None
     \<and> Read host (snd (Close host this fd)) fd ti
         = (AK_Fail, snd (Close host this fd), NoTransfer)"
proof -
  have closed: "Close host this fd =
      (AK_Success,
       this\<lparr>m_packageFiles := (m_packageFiles this)(package_key (hFile fd) := None)\<rparr>)"
    using assms by (rule Close_package)
  then have gone: "m_packageFiles (snd (Close host this fd)) (package_key (hFile fd)) = None"
    by simp
  from closed gone Read_stale [OF assms gone] show ?thesis
    by simp
qed

lemma scenario_reclose:
  "Close scenario_host ((hook_at 2)\<lparr>m_packageFiles := [1 \<mapsto> [1, 2, 3, 4]]\<rparr>)
     (scenario_desc\<lparr>hFile := 0xFFFFFFFF80000001\<rparr>) = (AK_Success, hook_at 2)"
  by (simp add: Close_def Let_def is_package_handle_value package_key_value hook_at_def)

text \<open>
  Claim C5, as amended. For a descriptor that a successful numeric-ID Open returned while
  the key counter was in the representable range (below \<open>2^31\<close>), Open has stored an
  entry under that key, and Close of the descriptor, in whatever state the hook is by
  then, succeeds and erases exactly the entry of that key from the Package Store; a Read
  of the same handle afterwards, whatever it requests, fails (\<^verbatim>\<open>AK_Fail\<close>, the result
  the hook gives for a key it does not find), copies nothing and leaves the hook as it
  is, so that every further Read fails alike.
\<close>

theorem Close_opened_then_Read:
  assumes opened: "Open_id host s0 in_fileID fd0 = Returns (AK_Success, s1, fd1)"
    and key: "m_nextPackageFileID s0 < 2 ^ 31"
  shows "m_packageFiles s1 (m_nextPackageFileID s0) \<noteq> None
     \<and> Close host this fd1 =
           (AK_Success,
            this\<lparr>m_packageFiles := (m_packageFiles this)(m_nextPackageFileID s0 := None)\<rparr>)
     \<and> m_packageFiles (snd (Close host this fd1)) (m_nextPackageFileID s0) = None
     \<and> Read host (snd (Close host this fd1)) fd1 ti
         = (AK_Fail, snd (Close host this fd1), NoTransfer)"
proof -
  have stored: "m_packageFiles s1 (m_nextPackageFileID s0) \<noteq> None"
    using Open_id_success(1) [OF opened] by simp
  have handle: "hFile fd1 = encode_handle (m_nextPackageFileID s0)"
    using Open_id_success(2) [OF opened] by simp
  then have flagged: "is_package_handle (hFile fd1)"
    by (simp add: is_package_encode)
  have decoded: "package_key (hFile fd1) = m_nextPackageFileID s0"
    using handle package_key_encode_small [OF key] by simp
  have closed: "Close host this fd1 =
      (AK_Success,
       this\<lparr>m_packageFiles := (m_packageFiles this)(m_nextPackageFileID s0 := None)\<rparr>)"
    using Close_package [OF flagged, of host this] decoded by simp
  then have gone: "m_packageFiles (snd (Close host this fd1)) (package_key (hFile fd1)) = None"
    using decoded by simp
  have "Read host (snd (Close host this fd1)) fd1 ti
          = (AK_Fail, snd (Close host this fd1), NoTransfer)"
    using flagged gone by (rule Read_stale)
  with stored closed gone decoded show ?thesis
    by simp
qed

theorem Close_opened_then_Read_witness:
  "Open_id scenario_host (hook_at 1) 0x10 blank_desc
     = Returns (AK_Success, (hook_at 2)\<lparr>m_packageFiles := [1 \<mapsto> [1, 2, 3, 4]]\<rparr>,
         scenario_desc\<lparr>hFile := 0xFFFFFFFF80000001\<rparr>)
   \<and> m_nextPackageFileID (hook_at 1) < 2 ^ 31
   \<and> m_packageFiles ((hook_at 2)\<lparr>m_packageFiles := [1 \<mapsto> [1, 2, 3, 4]]\<rparr>) 1
       = Some [1, 2, 3, 4]
   \<and> Close scenario_host ((hook_at 2)\<lparr>m_packageFiles := [1 \<mapsto> [1, 2, 3, 4]]\<rparr>)
         (scenario_desc\<lparr>hFile := 0xFFFFFFFF80000001\<rparr>) = (AK_Success, hook_at 2)
   \<and> m_packageFiles (hook_at 2) 1 = None
   \<and> Read scenario_host (hook_at 2) (scenario_desc\<lparr>hFile := 0xFFFFFFFF80000001\<rparr>)
         (request 0 4) = (AK_Fail, hook_at 2, NoTransfer)"
proof -
  have key: "m_nextPackageFileID (hook_at 1) < 2 ^ 31"
    by (simp add: hook_at_def)
  have "Read scenario_host (hook_at 2) (scenario_desc\<lparr>hFile := 0xFFFFFFFF80000001\<rparr>)
         (request 0 4) = (AK_Fail, hook_at 2, NoTransfer)"
    using Close_opened_then_Read [OF scenario_reopen key,
        where this = "(hook_at 2)\<lparr>m_packageFiles := [1 \<mapsto> [1, 2, 3, 4]]\<rparr>"
          and ti = "request 0 4"]
    unfolding scenario_reclose snd_conv by blast
  moreover have "m_packageFiles (hook_at 2) 1 = None"
    by (simp add: hook_at_def)
  ultimately show ?thesis
    using scenario_reopen scenario_reclose key by simp
qed

text \<open>
  Without the bound on the key the claim fails. The descriptor opened while the counter
  holds \<open>2^31\<close> has its buffer under the key \<open>2^31\<close> and a handle whose low 31 bits
  are 0: Close erases the (absent) entry 0, returns \<^verbatim>\<open>AK_Success\<close> and leaves the
  descriptor's buffer in the store.
\<close>

theorem Close_aliased_counterexample:
  "Open_id scenario_host (hook_at 0x80000000) 0x10 blank_desc =
     Returns (AK_Success,
       (hook_at 0x80000001)\<lparr>m_packageFiles := [0x80000000 \<mapsto> [1, 2, 3, 4]]\<rparr>,
       scenario_desc)
   \<and> is_package_handle (hFile scenario_desc)
   \<and> fst (Close scenario_host
         ((hook_at 0x80000001)\<lparr>m_packageFiles := [0x80000000 \<mapsto> [1, 2, 3, 4]]\<rparr>)
         scenario_desc) = AK_Success
   \<and> m_packageFiles (snd (Close scenario_host
         ((hook_at 0x80000001)\<lparr>m_packageFiles := [0x80000000 \<mapsto> [1, 2, 3, 4]]\<rparr>)
         scenario_desc)) 0x80000000 = Some [1, 2, 3, 4]"
proof -
  have "Open_id scenario_host (hook_at 0x80000000) 0x10 blank_desc =
     Returns (AK_Success,
       (hook_at 0x80000001)\<lparr>m_packageFiles := [0x80000000 \<mapsto> [1, 2, 3, 4]]\<rparr>,
       scenario_desc)"
    by (simp add: Open_id_def scenario_host_def hook_at_def blank_desc_def
        scenario_desc_def SIZE_MAX_def fill_buffer_def encode_handle_value Let_def)
  moreover have "Close scenario_host
         ((hook_at 0x80000001)\<lparr>m_packageFiles := [0x80000000 \<mapsto> [1, 2, 3, 4]]\<rparr>)
         scenario_desc
       = (AK_Success,
          (hook_at 0x80000001)\<lparr>m_packageFiles := [0x80000000 \<mapsto> [1, 2, 3, 4]](0 := None)\<rparr>)"
    by (simp add: Close_package scenario_desc_flagged scenario_desc_key hook_at_def)
  ultimately show ?thesis
    by (simp add: scenario_desc_flagged)
qed

text \<open>
  Claim C4, as amended. The key an open assigns is the value of \<^verbatim>\<open>m_nextPackageFileID\<close>
  when it is called (\<^verbatim>\<open>auto fileId = m_nextPackageFileID++\<close>). For two successful
  numeric-ID opens in sequence, with or without a Close of the first descriptor between
  them, the second key is strictly greater than the first provided the first key is not
  \<open>2^64 - 1\<close>, the value at which the 64-bit counter wraps to 0. Both keys are stored and
  encoded in the handles returned, and Close never changes the counter.
\<close>

theorem package_keys_increase:
  assumes first: "Open_id host s0 id1 fda = Returns (AK_Success, s1, fd1)"
    and between: "s1' = s1 \<or> s1' = snd (Close host s1 fd1)"
    and second: "Open_id host s1' id2 fdb = Returns (AK_Success, s2, fd2)"
    and nowrap: "m_nextPackageFileID s0 \<noteq> - 1"
  shows "m_nextPackageFileID s0 < m_nextPackageFileID s1'
     \<and> m_packageFiles s1 (m_nextPackageFileID s0) \<noteq> None
     \<and> m_packageFiles s2 (m_nextPackageFileID s1') \<noteq> None
     \<and> hFile fd1 = encode_handle (m_nextPackageFileID s0)
     \<and> hFile fd2 = encode_handle (m_nextPackageFileID s1')
     \<and> m_nextPackageFileID (snd (Close host s1 fd1)) = m_nextPackageFileID s1"
proof -
  have c1: "m_nextPackageFileID s1 = m_nextPackageFileID s0 + 1"
    using Open_id_success(1) [OF first] by simp
  have "m_nextPackageFileID s1' = m_nextPackageFileID s1"
    using between Close_counter by auto
  with c1 counter_step [OF nowrap]
  have less: "m_nextPackageFileID s0 < m_nextPackageFileID s1'"
    by simp
  have k1: "m_packageFiles s1 (m_nextPackageFileID s0) \<noteq> None"
    using Open_id_success(1) [OF first] by simp
  have k2: "m_packageFiles s2 (m_nextPackageFileID s1') \<noteq> None"
    using Open_id_success(1) [OF second] by simp
  have h1: "hFile fd1 = encode_handle (m_nextPackageFileID s0)"
    using Open_id_success(2) [OF first] by simp
  have h2: "hFile fd2 = encode_handle (m_nextPackageFileID s1')"
    using Open_id_success(2) [OF second] by simp
  from less k1 k2 h1 h2 Close_counter show ?thesis
    by simp
qed

theorem package_keys_increase_witness:
  "Open_id scenario_host (hook_at 0) 0x10 blank_desc
     = Returns (AK_Success, scenario_hook, scenario_desc)
   \<and> Close scenario_host scenario_hook scenario_desc = (AK_Success, hook_at 1)
   \<and> Open_id scenario_host (hook_at 1) 0x10 blank_desc
       = Returns (AK_Success, (hook_at 2)\<lparr>m_packageFiles := [1 \<mapsto> [1, 2, 3, 4]]\<rparr>,
           scenario_desc\<lparr>hFile := 0xFFFFFFFF80000001\<rparr>)
   \<and> m_nextPackageFileID (hook_at 0) < m_nextPackageFileID (hook_at 1)
   \<and> hFile scenario_desc = encode_handle 0
   \<and> hFile (scenario_desc\<lparr>hFile := 0xFFFFFFFF80000001\<rparr>) = encode_handle 1"
proof -
  have between:
    "hook_at 1 = scenario_hook
       \<or> hook_at 1 = snd (Close scenario_host scenario_hook scenario_desc)"
    by (simp add: scenario_close)
  have nowrap: "m_nextPackageFileID (hook_at 0) \<noteq> - 1"
    by (simp add: hook_at_def)
  have "m_nextPackageFileID (hook_at 0) < m_nextPackageFileID (hook_at 1)
     \<and> hFile scenario_desc = encode_handle 0
     \<and> hFile (scenario_desc\<lparr>hFile := 0xFFFFFFFF80000001\<rparr>) = encode_handle 1"
    using package_keys_increase [OF scenario_open between scenario_reopen nowrap]
    by (simp add: hook_at_def)
  with scenario_open scenario_close scenario_reopen show ?thesis
    by simp
qed

text \<open>
  Without the proviso the claim fails: from a counter at \<open>2^64 - 1\<close> the first open is
  given the key \<open>2^64 - 1\<close> and the second the key 0.
\<close>

theorem package_keys_wrap_counterexample:
  "Open_id scenario_host (hook_at 0xFFFFFFFFFFFFFFFF) 0x10 blank_desc =
     Returns (AK_Success,
       (hook_at 0)\<lparr>m_packageFiles := [0xFFFFFFFFFFFFFFFF \<mapsto> [1, 2, 3, 4]]\<rparr>,
       scenario_desc\<lparr>hFile := 0xFFFFFFFFFFFFFFFF\<rparr>)
   \<and> Open_id scenario_host
         ((hook_at 0)\<lparr>m_packageFiles := [0xFFFFFFFFFFFFFFFF \<mapsto> [1, 2, 3, 4]]\<rparr>)
         0x10 blank_desc =
     Returns (AK_Success,
       (hook_at 1)\<lparr>m_packageFiles :=
          [0xFFFFFFFFFFFFFFFF \<mapsto> [1, 2, 3, 4], 0 \<mapsto> [1, 2, 3, 4]]\<rparr>,
       scenario_desc)
   \<and> \<not> m_nextPackageFileID (hook_at 0xFFFFFFFFFFFFFFFF)
         < m_nextPackageFileID
             ((hook_at 0)\<lparr>m_packageFiles := [0xFFFFFFFFFFFFFFFF \<mapsto> [1, 2, 3, 4]]\<rparr>)"
  by (simp add: Open_id_def scenario_host_def hook_at_def blank_desc_def
      scenario_desc_def SIZE_MAX_def fill_buffer_def encode_handle_value Let_def)

section \<open>Native transfers and writing\<close>

text \<open>
  On a native descriptor the result of Read is decided by the \<^verbatim>\<open>BOOL\<close> of
  \<^verbatim>\<open>ReadFile\<close> alone, and the result of Write, on any descriptor, by that of
  \<^verbatim>\<open>WriteFile\<close>; the transferred count takes no part.
\<close>

lemma Read_native:
  assumes "\<not> is_package_handle (hFile fd)"
  shows "Read host this fd ti =
           (let r = ReadFile host (hFile fd) (uRequestedSize ti)
                      (ucast (uFilePosition ti AND 0xFFFFFFFF))
                      (ucast (drop_bit 32 (uFilePosition ti) AND 0xFFFFFFFF))
            in (if fst r then AK_Success else AK_Fail, this, Transferred (fst (snd r))))"
  using assms by (simp add: Read_def Let_def split: prod.splits)

lemma Write_result:
  "Write host this fd in_pData ti =
     (let r = WriteFile host (hFile fd) in_pData (uRequestedSize ti)
                (ucast (uFilePosition ti AND 0xFFFFFFFF))
                (ucast (drop_bit 32 (uFilePosition ti) AND 0xFFFFFFFF))
      in (if fst r then AK_Success else AK_Fail, this))"
  by (simp add: Write_def Let_def split: prod.splits)

text \<open>
  Claim C7. A Read or Write against a native descriptor must succeed only if the
  operating system's transfer succeeds and moves as many bytes as were requested. The
  hook returns \<^verbatim>\<open>AK_Success\<close> whenever \<^verbatim>\<open>ReadFile\<close> or \<^verbatim>\<open>WriteFile\<close> answers true: the
  count is compared only inside \<^verbatim>\<open>AKASSERT\<close>, which decides nothing. With an operating
  system that answers true having moved one byte of the two requested, both operations
  report success.
\<close>

theorem native_short_transfer_reported_as_success:
  "\<not> is_package_handle 0x44
   \<and> ReadFile scenario_host 0x44 2 0 0 = (True, [0x2A], 1)
   \<and> Read scenario_host scenario_hook (blank_desc\<lparr>hFile := 0x44\<rparr>) (request 0 2)
       = (AK_Success, scenario_hook, Transferred [0x2A])
   \<and> WriteFile scenario_host 0x44 [7, 8] 2 0 0 = (True, 1)
   \<and> Write scenario_host scenario_hook (blank_desc\<lparr>hFile := 0x44\<rparr>) [7, 8] (request 0 2)
       = (AK_Success, scenario_hook)"
  by (simp add: Read_def Write_def is_package_handle_value scenario_host_def blank_desc_def
      request_def Let_def)

text \<open>
  Claim C9, as amended. Write has no branch for a Package-flagged descriptor: it hands the
  handle value to \<^verbatim>\<open>WriteFile\<close> as it does for any other, returns \<^verbatim>\<open>AK_Success\<close> when
  the operating system answers true and \<^verbatim>\<open>AK_Fail\<close> otherwise, and leaves the hook, the
  Package Store with it, unchanged in both cases.
\<close>

theorem Write_package_forwards_to_os:
  assumes "is_package_handle (hFile fd)"
  shows "Write host this fd in_pData ti =
           (if fst (WriteFile host (hFile fd) in_pData (uRequestedSize ti)
                     (ucast (uFilePosition ti AND 0xFFFFFFFF))
                     (ucast (drop_bit 32 (uFilePosition ti) AND 0xFFFFFFFF)))
            then AK_Success else AK_Fail, this)"
  by (simp add: Write_def Let_def split: prod.splits)

theorem Write_package_forwards_to_os_witness:
  "is_package_handle (hFile scenario_desc)
     \<and> Write scenario_host scenario_hook scenario_desc [9] (request 0 1)
         = (AK_Success, scenario_hook)"
  using Write_package_forwards_to_os
    [OF scenario_desc_flagged, of scenario_host scenario_hook "[9]" "request 0 1"]
  by (simp add: scenario_desc_flagged scenario_host_def)

text \<open>
  The claim as the specification words it has every such Write fail. On the scenario's
  descriptor, whose key is present in the store, the Write below succeeds.
\<close>

theorem Write_package_counterexample:
  "is_package_handle (hFile scenario_desc)
     \<and> m_packageFiles scenario_hook (package_key (hFile scenario_desc)) = Some [1, 2, 3, 4]
     \<and> fst (Write scenario_host scenario_hook scenario_desc [9] (request 0 1)) = AK_Success"
  by (simp add: scenario_desc_flagged scenario_desc_key Write_def scenario_host_def
      scenario_hook_def Let_def)

section \<open>Initialisation\<close>

text \<open>
  Claim C6. For every device-settings value whose scheduler type is not
  \<^verbatim>\<open>AK_SCHEDULER_BLOCKING\<close>, Init fails (\<^verbatim>\<open>AK_Fail\<close>) and leaves both the hook and
  the streaming manager as they were: no resolver is registered and no device is created.
\<close>

theorem Init_rejects_other_schedulers:
  "uSchedulerTypeFlags in_deviceSettings \<noteq> AK_SCHEDULER_BLOCKING \<Longrightarrow>
     Init mgr this_ptr this in_deviceSettings m = (AK_Fail, this, m)"
  by (simp add: Init_def)

theorem Init_rejects_other_schedulers_witness:
  "uSchedulerTypeFlags \<lparr>uSchedulerTypeFlags = 0x02\<rparr> \<noteq> AK_SCHEDULER_BLOCKING
     \<and> Init refusing_mgr 0x1000 (hook_at 0) \<lparr>uSchedulerTypeFlags = 0x02\<rparr> NULL
         = (AK_Fail, hook_at 0, NULL)"
proof -
  have h: "uSchedulerTypeFlags \<lparr>uSchedulerTypeFlags = 0x02\<rparr> \<noteq> AK_SCHEDULER_BLOCKING"
    by (simp add: AK_SCHEDULER_BLOCKING_def)
  from h Init_rejects_other_schedulers [OF h] show ?thesis
    by simp
qed

text \<open>
  Claim C10. For every device-settings value whose scheduler type is
  \<^verbatim>\<open>AK_SCHEDULER_BLOCKING\<close>, Init returns \<^verbatim>\<open>AK_Success\<close>, whatever device identity
  \<^verbatim>\<open>CreateDevice\<close> hands back; the hook keeps that identity, also when it is
  \<^verbatim>\<open>AK_INVALID_DEVICE_ID\<close>.
\<close>

theorem Init_blocking_returns_success:
  assumes "uSchedulerTypeFlags in_deviceSettings = AK_SCHEDULER_BLOCKING"
  shows "fst (Init mgr this_ptr this in_deviceSettings m) = AK_Success
     \<and> m_deviceID (fst (snd (Init mgr this_ptr this in_deviceSettings m)))
         = fst (CreateDevice mgr in_deviceSettings this_ptr
                 (if GetFileLocationResolver mgr m = NULL
                  then SetFileLocationResolver mgr this_ptr m else m))"
  using assms by (simp add: Init_def Let_def split: prod.splits)

theorem Init_blocking_returns_success_witness:
  "uSchedulerTypeFlags \<lparr>uSchedulerTypeFlags = 0x01\<rparr> = AK_SCHEDULER_BLOCKING
     \<and> fst (CreateDevice refusing_mgr \<lparr>uSchedulerTypeFlags = 0x01\<rparr> 0x1000 0x1000)
         = AK_INVALID_DEVICE_ID
     \<and> fst (Init refusing_mgr 0x1000 (hook_at 0) \<lparr>uSchedulerTypeFlags = 0x01\<rparr> NULL)
         = AK_Success
     \<and> m_deviceID
         (fst (snd (Init refusing_mgr 0x1000 (hook_at 0) \<lparr>uSchedulerTypeFlags = 0x01\<rparr> NULL)))
         = AK_INVALID_DEVICE_ID"
proof -
  have h: "uSchedulerTypeFlags \<lparr>uSchedulerTypeFlags = 0x01\<rparr> = AK_SCHEDULER_BLOCKING"
    by (simp add: AK_SCHEDULER_BLOCKING_def)
  have c: "fst (CreateDevice refusing_mgr \<lparr>uSchedulerTypeFlags = 0x01\<rparr> 0x1000 0x1000)
         = AK_INVALID_DEVICE_ID"
    by (simp add: refusing_mgr_def)
  from Init_blocking_returns_success [OF h, of refusing_mgr "0x1000" "hook_at 0" NULL]
  have "fst (Init refusing_mgr 0x1000 (hook_at 0) \<lparr>uSchedulerTypeFlags = 0x01\<rparr> NULL)
          = AK_Success
     \<and> m_deviceID
         (fst (snd (Init refusing_mgr 0x1000 (hook_at 0) \<lparr>uSchedulerTypeFlags = 0x01\<rparr> NULL)))
         = AK_INVALID_DEVICE_ID"
    by (simp add: refusing_mgr_def NULL_def)
  with h c show ?thesis
    by simp
qed

end
